theory Spec2Isabelle
  imports Complex_Main "HOL-Library.Word"
begin

section \<open>Python values used by the two drivers\<close>

text \<open>
  The repository holds two near-identical drivers, \<^verbatim>\<open>dl24testload.py\<close> (class
  \<^verbatim>\<open>DL24TestLoad\<close>) and \<^verbatim>\<open>ud18usbmeter.py\<close> (class \<^verbatim>\<open>UD18UsbMeter\<close>). Their
  \<^verbatim>\<open>__init__\<close>, \<^verbatim>\<open>find_device\<close> and \<^verbatim>\<open>connect\<close> are the same text; only the
  default device name and the field extraction inside \<^verbatim>\<open>handle_data\<close> differ.

  A notification payload is a \<^verbatim>\<open>bytearray\<close>: a list of bytes. Indexing it gives a
  Python \<^verbatim>\<open>int\<close> between 0 and 255, which is unbounded from then on, so shifts and
  sums are computed on \<open>int\<close> and never wrap.
\<close>

type_synonym byte = "8 word"

text \<open>
  A Python \<^verbatim>\<open>float\<close> is an IEEE 754 binary64 number. Every float the drivers compute
  is finite, so a float is modelled by the rational number it denotes, and each
  floating-point operation by the exact operation followed by rounding to the nearest
  number with a 53-bit significand, ties to the even significand. The exponent range is
  not modelled: the drivers only divide integers below \<open>2 ^ 32\<close> by 10, 100 or 1000, so
  every nonzero result lies between \<open>2 ^ -10\<close> and \<open>2 ^ 32\<close>.
\<close>

definition round_half_even :: "rat \<Rightarrow> int" where
  "round_half_even x =
     (let f = \<lfloor>x\<rfloor>; r = x - of_int f
      in if 1 / 2 < r \<or> (r = 1 / 2 \<and> odd f) then f + 1 else f)"

function bit_length :: "int \<Rightarrow> int" where
  "bit_length n = (if n \<le> 0 then 0 else bit_length (n div 2) + 1)"
  by pat_completeness auto
termination
  by (relation "measure nat") auto

text \<open>For \<open>x > 0\<close>, \<open>floor_log2 x\<close> is the \<open>e\<close> with \<open>2 ^ e \<le> x < 2 ^ (e + 1)\<close>.\<close>

definition floor_log2 :: "rat \<Rightarrow> int" where
  "floor_log2 x =
     (case quotient_of x of (n, d) \<Rightarrow>
        let e = bit_length n - bit_length d
        in if 2 powi e \<le> x then e else e - 1)"

definition round_binary64 :: "rat \<Rightarrow> rat" where
  "round_binary64 x =
     (if x = 0 then 0
      else let e = floor_log2 \<bar>x\<bar>
           in sgn x * of_int (round_half_even (\<bar>x\<bar> * 2 powi (52 - e))) * 2 powi (e - 52))"

text \<open>\<^verbatim>\<open>float(n)\<close> for an \<^verbatim>\<open>int\<close>, and \<^verbatim>\<open>x / y\<close> on floats with \<open>y\<close> a nonzero literal.\<close>

definition py_float :: "int \<Rightarrow> rat" where
  "py_float n = round_binary64 (of_int n)"

definition truediv :: "rat \<Rightarrow> rat \<Rightarrow> rat" where
  "truediv x y = round_binary64 (x / y)"

text \<open>
  The callback receives four positional arguments, each an \<^verbatim>\<open>int\<close> or a \<^verbatim>\<open>float\<close>
  depending on the driver; \<^verbatim>\<open>log_data\<close> names them \<^verbatim>\<open>voltage\<close>, \<^verbatim>\<open>amperage\<close>,
  \<^verbatim>\<open>milliamphour\<close> and \<^verbatim>\<open>watthour\<close>.
\<close>

datatype pyval = PyInt int | PyFloat rat

record Reading =
  voltage :: pyval
  amperage :: pyval
  milliamphour :: pyval
  watthour :: pyval

subsection \<open>Strings\<close>

text \<open>
  \<^verbatim>\<open>str.lower\<close> and \<^verbatim>\<open>str.strip\<close> on ASCII text, which is what device addresses,
  characteristic identifiers and the hex dump are made of.
\<close>

definition lower_char :: "char \<Rightarrow> char" where
  "lower_char c =
     (let n = of_char c :: nat in if 65 \<le> n \<and> n \<le> 90 then char_of (n + 32) else c)"

definition lower :: "string \<Rightarrow> string" where
  "lower s = map lower_char s"

definition is_space :: "char \<Rightarrow> bool" where
  "is_space c = (let n = of_char c :: nat in (9 \<le> n \<and> n \<le> 13) \<or> (28 \<le> n \<and> n \<le> 32))"

definition strip :: "string \<Rightarrow> string" where
  "strip s = rev (dropWhile is_space (rev (dropWhile is_space s)))"

definition hex_digit :: "nat \<Rightarrow> char" where
  "hex_digit n = ''0123456789ABCDEF'' ! n"

text \<open>\<^verbatim>\<open>"%02X " % d\<close> for a byte \<open>d\<close>: two upper-case hex digits and a space.\<close>

definition format_02X :: "byte \<Rightarrow> string" where
  "format_02X d = [hex_digit (unat d div 16), hex_digit (unat d mod 16), CHR '' '']"

definition newline :: string where
  "newline = [CHR 0x0A]"

section \<open>The driver object and its effects\<close>

text \<open>
  The scan primitive \<^verbatim>\<open>BleakScanner.discover()\<close> returns a list of devices, each with
  a name and an address; \<^verbatim>\<open>BleakClient(address)\<close> is the link object.
\<close>

record BLEDevice =
  name :: string
  address :: string

datatype BleakClient = BleakClient string

text \<open>
  The fields set by \<^verbatim>\<open>__init__\<close>. The callback is an opaque callable, kept as a value
  of a type parameter; \<^verbatim>\<open>None\<close> is \<open>None\<close>.
\<close>

record 'cb meter =
  dev_name :: string
  data_char_uuid :: string
  dev_mac_addr :: "string option"
  callback :: "'cb option"
  device :: "BLEDevice option"
  client :: "BleakClient option"

definition init :: "string \<Rightarrow> string option \<Rightarrow> string \<Rightarrow> 'cb option \<Rightarrow> 'cb meter" where
  "init dev_name' dev_mac_addr' data_char_uuid' callback' =
     \<lparr>dev_name = dev_name', data_char_uuid = data_char_uuid', dev_mac_addr = dev_mac_addr',
      callback = callback', device = None, client = None\<rparr>"

text \<open>The two constructors, with the default device name and characteristic.\<close>

definition DL24TestLoad :: "string option \<Rightarrow> 'cb option \<Rightarrow> 'cb meter" where
  "DL24TestLoad dev_mac_addr' callback' =
     init ''DL24_BLE'' dev_mac_addr' ''0000ffe1-0000-1000-8000-00805f9b34fb'' callback'"

definition UD18UsbMeter :: "string option \<Rightarrow> 'cb option \<Rightarrow> 'cb meter" where
  "UD18UsbMeter dev_mac_addr' callback' =
     init ''UD18_BLE'' dev_mac_addr' ''0000ffe1-0000-1000-8000-00805f9b34fb'' callback'"

text \<open>
  What a method does besides returning is recorded as a list of events, in program order:
  text written to standard output (\<^verbatim>\<open>print\<close>, with the line end it writes), a call
  of the registered callback with its four arguments, and the calls into the wireless
  stack.
\<close>

datatype 'cb event =
    Print string
  | Call 'cb pyval pyval pyval pyval
  | Discover
  | LinkConnect string
  | StartNotify string

datatype py_error = AttributeError

section \<open>Frame decoding: \<^verbatim>\<open>handle_data\<close>\<close>

text \<open>
  \<open>CurrentLoadMeter\<close> selects the body of \<^verbatim>\<open>DL24TestLoad.handle_data\<close>,
  \<open>UsbPowerMeter\<close> that of \<^verbatim>\<open>UD18UsbMeter.handle_data\<close>.
\<close>

datatype DeviceVariant = CurrentLoadMeter | UsbPowerMeter

text \<open>
  The branch taken when a callback is registered. A frame of 36 bytes is parsed into the
  four callback arguments; for any other length the source executes \<^verbatim>\<open>pass\<close>, which
  is the outcome \<open>WrongLength\<close>. The source has no other way of rejecting a frame, so
  \<open>UnrecognizedPayload\<close> is never produced.
\<close>

datatype DecodeFailure = WrongLength | UnrecognizedPayload

fun parse :: "DeviceVariant \<Rightarrow> byte list \<Rightarrow> Reading" where
  "parse CurrentLoadMeter data =
     \<lparr>voltage = PyFloat (truediv (py_float
          (push_bit 16 (uint (data ! 4)) + push_bit 8 (uint (data ! 5)) + uint (data ! 6))) 10),
      amperage = PyFloat (truediv (py_float
          (push_bit 16 (uint (data ! 7)) + push_bit 8 (uint (data ! 8)) + uint (data ! 9))) 1000),
      milliamphour = PyInt
          ((push_bit 16 (uint (data ! 10)) + push_bit 8 (uint (data ! 11)) + uint (data ! 12)) * 10),
      watthour = PyInt
          ((push_bit 24 (uint (data ! 13)) + push_bit 16 (uint (data ! 14))
             + push_bit 8 (uint (data ! 15)) + uint (data ! 16)) * 10)\<rparr>"
| "parse UsbPowerMeter data =
     \<lparr>voltage = PyFloat (truediv (py_float
          (push_bit 8 (uint (data ! 5)) + uint (data ! 6))) 100),
      amperage = PyFloat (truediv (py_float
          (push_bit 8 (uint (data ! 8)) + uint (data ! 9))) 100),
      milliamphour = PyInt
          (push_bit 16 (uint (data ! 10)) + push_bit 8 (uint (data ! 11)) + uint (data ! 12)),
      watthour = PyFloat (truediv (py_float
          (push_bit 24 (uint (data ! 13)) + push_bit 16 (uint (data ! 14))
             + push_bit 8 (uint (data ! 15)) + uint (data ! 16))) 100)\<rparr>"

definition decode :: "DeviceVariant \<Rightarrow> byte list \<Rightarrow> DecodeFailure + Reading" where
  "decode variant data =
     (if length data = 36 then Inr (parse variant data) else Inl WrongLength)"

text \<open>\<^verbatim>\<open>self.callback(v, a, mah, wh)\<close>\<close>

definition invoke :: "'cb \<Rightarrow> Reading \<Rightarrow> 'cb event" where
  "invoke cb r = Call cb (voltage r) (amperage r) (milliamphour r) (watthour r)"

definition handle_data ::
  "DeviceVariant \<Rightarrow> 'cb meter \<Rightarrow> int \<Rightarrow> byte list \<Rightarrow> 'cb event list" where
  "handle_data variant self sender data =
     (case callback self of
        None \<Rightarrow> [Print (''data: '' @ strip (concat (map format_02X data)) @ newline)]
      | Some cb \<Rightarrow>
          (case decode variant data of
             Inr r \<Rightarrow> [invoke cb r]
           | Inl _ \<Rightarrow> []))"

text \<open>
  Once \<^verbatim>\<open>start_notify\<close> has registered \<^verbatim>\<open>handle_data\<close>, the wireless stack calls it
  once for every notification, one at a time and in the order of arrival. \<open>deliver\<close> is
  that succession of calls for a finite sequence of inbound frames.
\<close>

fun deliver :: "DeviceVariant \<Rightarrow> 'cb meter \<Rightarrow> int \<Rightarrow> byte list list \<Rightarrow> 'cb event list" where
  "deliver variant self sender [] = []"
| "deliver variant self sender (data # frames) =
     handle_data variant self sender data @ deliver variant self sender frames"

section \<open>Locating the device: \<^verbatim>\<open>find_device\<close>\<close>

text \<open>
  \<open>find_device self devices\<close> is the body of \<^verbatim>\<open>find_device\<close> after
  \<^verbatim>\<open>devices = await BleakScanner.discover()\<close> has returned \<open>devices\<close>. It gives the
  value returned (\<^verbatim>\<open>None\<close> or the device) or the exception raised, and the object
  afterwards.

  The second test of the loop body reads \<^verbatim>\<open>self.device.address\<close>, the address of the
  device stored in the object, not \<^verbatim>\<open>d.address\<close>. When an address is configured and
  \<^verbatim>\<open>self.device\<close> is still \<^verbatim>\<open>None\<close>, that attribute access raises
  \<^verbatim>\<open>AttributeError\<close>; the \<^verbatim>\<open>and\<close> evaluates it only after
  \<^verbatim>\<open>self.dev_mac_addr is not None\<close> has held.
\<close>

fun find_device ::
  "'cb meter \<Rightarrow> BLEDevice list \<Rightarrow> (py_error + BLEDevice option) \<times> 'cb meter" where
  "find_device self [] = (Inr None, self)"
| "find_device self (d # devices) =
     (if name d = dev_name self then (Inr (Some d), self\<lparr>device := Some d\<rparr>)
      else
        (case dev_mac_addr self of
           None \<Rightarrow> find_device self devices
         | Some mac \<Rightarrow>
             (case device self of
                None \<Rightarrow> (Inl AttributeError, self)
              | Some cur \<Rightarrow>
                  if lower (address cur) = lower mac
                  then (Inr (Some d), self\<lparr>device := Some d\<rparr>)
                  else find_device self devices)))"

section \<open>Connecting and subscribing: \<^verbatim>\<open>connect\<close>\<close>

text \<open>
  The part of \<^verbatim>\<open>connect\<close> after the scan loop, entered with the device found;
  \<open>res\<close> is what \<^verbatim>\<open>await self.client.connect()\<close> returns.
\<close>

definition connect_found ::
  "'cb meter \<Rightarrow> BLEDevice \<Rightarrow> bool \<Rightarrow> (py_error + bool) \<times> 'cb meter \<times> 'cb event list" where
  "connect_found self dev res =
     (let self' = self\<lparr>client := Some (BleakClient (address dev))\<rparr>
      in if res
         then (Inr True, self',
               [LinkConnect (address dev), Print (''connected'' @ newline),
                StartNotify (lower (data_char_uuid self)),
                Print (''notifications started'' @ newline)])
         else (Inr False, self', [LinkConnect (address dev)]))"

definition found_message :: "BLEDevice \<Rightarrow> string" where
  "found_message dev =
     ''device '' @ [CHR 0x22] @ name dev @ [CHR 0x22] @ '' found, MAC-addr: '' @ address dev
       @ newline"

definition after_events ::
  "'cb event list \<Rightarrow> ('a \<times> 'cb meter \<times> 'cb event list \<times> 'b) option
     \<Rightarrow> ('a \<times> 'cb meter \<times> 'cb event list \<times> 'b) option" where
  "after_events evs r =
     (case r of None \<Rightarrow> None
      | Some (out, self, trace, rest) \<Rightarrow> Some (out, self, evs @ trace, rest))"

text \<open>
  \<open>connect self keep_trying scans res\<close>: the successive results of
  \<^verbatim>\<open>BleakScanner.discover()\<close> are the list \<open>scans\<close>, one element per scan pass. The
  result is the value returned or the exception raised, the object afterwards, the events
  in order and the scan results not yet consumed. With \<^verbatim>\<open>keep_trying\<close> the loop can
  go on for ever; the model gives \<open>None\<close> when the loop asks for a scan pass and \<open>scans\<close>
  has none left.
\<close>

fun connect ::
  "'cb meter \<Rightarrow> bool \<Rightarrow> BLEDevice list list \<Rightarrow> bool
     \<Rightarrow> ((py_error + bool) \<times> 'cb meter \<times> 'cb event list \<times> BLEDevice list list) option" where
  "connect self keep_trying [] res =
     (case device self of
        Some dev \<Rightarrow>
          (case connect_found self dev res of (out, self', trace) \<Rightarrow> Some (out, self', trace, []))
      | None \<Rightarrow> None)"
| "connect self keep_trying (devices # scans) res =
     (case device self of
        Some dev \<Rightarrow>
          (case connect_found self dev res of
             (out, self', trace) \<Rightarrow> Some (out, self', trace, devices # scans))
      | None \<Rightarrow>
          (case find_device self devices of
             (Inl e, self') \<Rightarrow> Some (Inl e, self', [Discover], scans)
           | (Inr _, self') \<Rightarrow>
               (case device self' of
                  Some dev \<Rightarrow>
                    (case connect_found self' dev res of
                       (out, self'', trace) \<Rightarrow>
                         Some (out, self'', [Discover, Print (found_message dev)] @ trace, scans))
                | None \<Rightarrow>
                    if keep_trying
                    then after_events
                           [Discover, Print ''device not found'', Print ('', retrying...'' @ newline)]
                           (connect self' keep_trying scans res)
                    else Some (Inr False, self', [Discover, Print ''device not found''], scans))))"

section \<open>Example inputs\<close>

text \<open>
  Two 36-byte frames that carry the same telemetry fields (200, 1000, 5 and 50 in bytes 4
  to 16) and differ in every other byte, a 36-byte frame for the USB meter layout
  (3000, 500, 100 and 10000), and a frame of ten zero bytes.
\<close>

definition scenario_A :: "byte list" where
  "scenario_A =
     [0xFF, 0x55, 0x01, 0x02,
      0x00, 0x00, 0xC8, 0x00, 0x03, 0xE8, 0x00, 0x00, 0x05, 0x00, 0x00, 0x00, 0x32,
      0x00, 0x00, 0x00, 0x00, 0x00, 0x00, 0x00, 0x00, 0x00, 0x00, 0x00, 0x00, 0x00, 0x00,
      0x00, 0x00, 0x00, 0x00, 0x00]"

definition scenario_A' :: "byte list" where
  "scenario_A' =
     [0x11, 0x22, 0x33, 0x44,
      0x00, 0x00, 0xC8, 0x00, 0x03, 0xE8, 0x00, 0x00, 0x05, 0x00, 0x00, 0x00, 0x32,
      0x01, 0x02, 0x03, 0x04, 0x05, 0x06, 0x07, 0x08, 0x09, 0x0A, 0x0B, 0x0C, 0x0D, 0x0E,
      0x0F, 0x10, 0x11, 0x12, 0x13]"

definition scenario_B :: "byte list" where
  "scenario_B =
     [0xFF, 0x55, 0x01, 0x03,
      0x00, 0x0B, 0xB8, 0x00, 0x01, 0xF4, 0x00, 0x00, 0x64, 0x00, 0x00, 0x27, 0x10,
      0x00, 0x00, 0x00, 0x00, 0x00, 0x00, 0x00, 0x00, 0x00, 0x00, 0x00, 0x00, 0x00, 0x00,
      0x00, 0x00, 0x00, 0x00, 0x00]"

definition zeros10 :: "byte list" where
  "zeros10 = [0, 0, 0, 0, 0, 0, 0, 0, 0, 0]"

section \<open>Properties of the frame handler\<close>

subsection \<open>Auxiliary facts\<close>

text \<open>The float divisions of the two scenarios are exact.\<close>

lemma truediv_200_10: "truediv (py_float 200) 10 = 20"
  by code_simp

lemma truediv_1000_1000: "truediv (py_float 1000) 1000 = 1"
  by code_simp

lemma truediv_3000_100: "truediv (py_float 3000) 100 = 30"
  by code_simp

lemma truediv_500_100: "truediv (py_float 500) 100 = 5"
  by code_simp

lemma truediv_10000_100: "truediv (py_float 10000) 100 = 100"
  by code_simp

text \<open>A division that is not exact: \<^verbatim>\<open>1 / 10.0\<close> is the double nearest to one tenth.\<close>

lemma truediv_1_10: "truediv (py_float 1) 10 = 3602879701896397 / 2 ^ 55"
  by code_simp

lemma handle_data_Some:
  "callback self = Some cb \<Longrightarrow>
     handle_data variant self sender data =
       (if length data = 36 then [invoke cb (parse variant data)] else [])"
  by (simp add: handle_data_def decode_def)

lemma hex_dump_zeros10:
  "strip (concat (map format_02X zeros10)) = ''00 00 00 00 00 00 00 00 00 00''"
  by code_simp

lemma scenario_A_window: "\<forall>i\<in>{4..16}. scenario_A ! i = scenario_A' ! i"
  by code_simp

subsection \<open>Field extraction\<close>

text \<open>
  Claim C1. Every 36-byte frame \<open>f\<close> decodes, under \<open>CurrentLoadMeter\<close>, to the reading
  with voltage \<^verbatim>\<open>((f[4]<<16)+(f[5]<<8)+f[6])/10.0\<close>, current
  \<^verbatim>\<open>((f[7]<<16)+(f[8]<<8)+f[9])/1000.0\<close>, capacity
  \<^verbatim>\<open>((f[10]<<16)+(f[11]<<8)+f[12])*10\<close> and energy
  \<^verbatim>\<open>((f[13]<<24)+(f[14]<<16)+(f[15]<<8)+f[16])*10\<close>; a frame whose bytes 4 to 16 are
  00 00 C8 00 03 E8 00 00 05 00 00 00 32 decodes to 20.0 V, 1.0 A, 50 mAh and 500 Wh.
\<close>

theorem decode_CurrentLoadMeter:
  assumes len: "length f = 36"
  shows "decode CurrentLoadMeter f = Inr
           \<lparr>voltage = PyFloat (truediv (py_float
              (push_bit 16 (uint (f ! 4)) + push_bit 8 (uint (f ! 5)) + uint (f ! 6))) 10),
            amperage = PyFloat (truediv (py_float
              (push_bit 16 (uint (f ! 7)) + push_bit 8 (uint (f ! 8)) + uint (f ! 9))) 1000),
            milliamphour = PyInt
              ((push_bit 16 (uint (f ! 10)) + push_bit 8 (uint (f ! 11)) + uint (f ! 12)) * 10),
            watthour = PyInt
              ((push_bit 24 (uint (f ! 13)) + push_bit 16 (uint (f ! 14))
                 + push_bit 8 (uint (f ! 15)) + uint (f ! 16)) * 10)\<rparr>
       \<and> ([f ! 4, f ! 5, f ! 6, f ! 7, f ! 8, f ! 9, f ! 10, f ! 11, f ! 12,
            f ! 13, f ! 14, f ! 15, f ! 16] =
           [0x00, 0x00, 0xC8, 0x00, 0x03, 0xE8, 0x00, 0x00, 0x05, 0x00, 0x00, 0x00, 0x32]
         \<longrightarrow> decode CurrentLoadMeter f = Inr
           \<lparr>voltage = PyFloat 20, amperage = PyFloat 1,
            milliamphour = PyInt 50, watthour = PyInt 500\<rparr>)"
  using len by (simp add: decode_def truediv_200_10 truediv_1000_1000)

theorem decode_CurrentLoadMeter_witness:
  "length scenario_A = 36
   \<and> decode CurrentLoadMeter scenario_A =
       Inr \<lparr>voltage = PyFloat 20, amperage = PyFloat 1,
            milliamphour = PyInt 50, watthour = PyInt 500\<rparr>"
  using decode_CurrentLoadMeter [of scenario_A]
  by (simp add: scenario_A_def truediv_200_10 truediv_1000_1000)

text \<open>
  Claim C2. Every 36-byte frame \<open>f\<close> decodes, under \<open>UsbPowerMeter\<close>, to the reading with
  voltage \<^verbatim>\<open>((f[5]<<8)+f[6])/100.0\<close>, current \<^verbatim>\<open>((f[8]<<8)+f[9])/100.0\<close>, capacity
  \<^verbatim>\<open>(f[10]<<16)+(f[11]<<8)+f[12]\<close> and energy
  \<^verbatim>\<open>((f[13]<<24)+(f[14]<<16)+(f[15]<<8)+f[16])/100.0\<close>; a frame with bytes 5 and 6 equal
  to 0B B8, bytes 8 and 9 to 01 F4, bytes 10 to 12 to 00 00 64 and bytes 13 to 16 to
  00 00 27 10 decodes to 30.0 V, 5.0 A, 100 mAh and 100.0 Wh.
\<close>

theorem decode_UsbPowerMeter:
  assumes len: "length f = 36"
  shows "decode UsbPowerMeter f = Inr
           \<lparr>voltage = PyFloat (truediv (py_float
              (push_bit 8 (uint (f ! 5)) + uint (f ! 6))) 100),
            amperage = PyFloat (truediv (py_float
              (push_bit 8 (uint (f ! 8)) + uint (f ! 9))) 100),
            milliamphour = PyInt
              (push_bit 16 (uint (f ! 10)) + push_bit 8 (uint (f ! 11)) + uint (f ! 12)),
            watthour = PyFloat (truediv (py_float
              (push_bit 24 (uint (f ! 13)) + push_bit 16 (uint (f ! 14))
                 + push_bit 8 (uint (f ! 15)) + uint (f ! 16))) 100)\<rparr>
       \<and> ([f ! 5, f ! 6] = [0x0B, 0xB8] \<and> [f ! 8, f ! 9] = [0x01, 0xF4]
            \<and> [f ! 10, f ! 11, f ! 12] = [0x00, 0x00, 0x64]
            \<and> [f ! 13, f ! 14, f ! 15, f ! 16] = [0x00, 0x00, 0x27, 0x10]
         \<longrightarrow> decode UsbPowerMeter f = Inr
           \<lparr>voltage = PyFloat 30, amperage = PyFloat 5,
            milliamphour = PyInt 100, watthour = PyFloat 100\<rparr>)"
  using len by (simp add: decode_def truediv_3000_100 truediv_500_100 truediv_10000_100)

theorem decode_UsbPowerMeter_witness:
  "length scenario_B = 36
   \<and> decode UsbPowerMeter scenario_B =
       Inr \<lparr>voltage = PyFloat 30, amperage = PyFloat 5,
            milliamphour = PyInt 100, watthour = PyFloat 100\<rparr>"
  using decode_UsbPowerMeter [of scenario_B]
  by (simp add: scenario_B_def truediv_3000_100 truediv_500_100 truediv_10000_100)

subsection \<open>The length gate\<close>

text \<open>
  Claim C3. A frame whose length is not 36 is rejected for both variants: decoding gives
  \<open>WrongLength\<close> and no reading, a handler with a callback registered does nothing at all
  (no call, no output, no exception), and no handler ever calls a callback for it.
\<close>

theorem wrong_length_discarded:
  assumes "length data \<noteq> 36"
  shows "decode variant data = Inl WrongLength
       \<and> (callback self = Some cb \<longrightarrow> handle_data variant self sender data = [])
       \<and> (\<forall>c r. invoke c r \<notin> set (handle_data variant self sender data))"
  using assms by (cases "callback self") (auto simp: decode_def handle_data_def invoke_def)

theorem wrong_length_discarded_witness:
  "length zeros10 \<noteq> 36
   \<and> decode CurrentLoadMeter zeros10 = Inl WrongLength
   \<and> decode UsbPowerMeter zeros10 = Inl WrongLength
   \<and> handle_data CurrentLoadMeter (DL24TestLoad None (Some ''log_data'')) 0 zeros10 = []
   \<and> handle_data UsbPowerMeter (UD18UsbMeter None (Some ''log_data'')) 0 zeros10 = []"
  using wrong_length_discarded [of zeros10 CurrentLoadMeter
      "DL24TestLoad None (Some ''log_data'')" "''log_data''" 0]
    wrong_length_discarded [of zeros10 UsbPowerMeter
      "UD18UsbMeter None (Some ''log_data'')" "''log_data''" 0]
  by (simp add: zeros10_def DL24TestLoad_def UD18UsbMeter_def init_def)

subsection \<open>Delivery of readings\<close>

text \<open>
  Claim C7. With a callback registered, a finite sequence of inbound frames makes the
  handler call the callback exactly once for each 36-byte frame, in arrival order, with
  the fields parsed from that frame, and never for a frame of another length; a
  wrong-length frame contributes nothing and the frames after it are still handled.
\<close>

theorem deliver_in_order:
  assumes "callback self = Some cb"
  shows "deliver variant self sender frames =
           map (\<lambda>data. invoke cb (parse variant data)) (filter (\<lambda>data. length data = 36) frames)"
  using assms by (induction frames) (simp_all add: handle_data_Some)

theorem deliver_in_order_witness:
  "deliver CurrentLoadMeter (DL24TestLoad None (Some ''log_data'')) 0
     [zeros10, scenario_A, [], scenario_A'] =
   [Call ''log_data'' (PyFloat 20) (PyFloat 1) (PyInt 50) (PyInt 500),
    Call ''log_data'' (PyFloat 20) (PyFloat 1) (PyInt 50) (PyInt 500)]"
  using deliver_in_order [of "DL24TestLoad None (Some ''log_data'')" "''log_data''"
      CurrentLoadMeter 0 "[zeros10, scenario_A, [], scenario_A']"]
  by (simp add: DL24TestLoad_def init_def invoke_def zeros10_def scenario_A_def scenario_A'_def
      truediv_200_10 truediv_1000_1000)

subsection \<open>Determinism and dependence on the input\<close>

text \<open>
  Claim C8. Decoding is a function of the variant and the frame bytes alone, and what the
  handler does is a function of the variant, the registered callback and the frame bytes:
  equal bytes give equal outcomes, whatever the rest of the object (device, client, names)
  and the sender are. The handler returns no updated object: it assigns to no field.
\<close>

theorem handle_data_deterministic:
  assumes "f = g" and "callback self1 = callback self2"
  shows "decode variant f = decode variant g
       \<and> handle_data variant self1 sender1 f = handle_data variant self2 sender2 g"
  using assms by (simp add: handle_data_def)

theorem handle_data_deterministic_witness:
  "handle_data CurrentLoadMeter (DL24TestLoad None (Some ''log_data'')) 1 scenario_A =
   handle_data CurrentLoadMeter
     ((DL24TestLoad (Some ''27:4B:B0:47:69:84'') (Some ''log_data''))
        \<lparr>device := Some \<lparr>name = ''DL24_BLE'', address = ''27:4B:B0:47:69:84''\<rparr>\<rparr>) 2 scenario_A"
  using handle_data_deterministic [of scenario_A scenario_A
      "DL24TestLoad None (Some ''log_data'')"
      "(DL24TestLoad (Some ''27:4B:B0:47:69:84'') (Some ''log_data''))
        \<lparr>device := Some \<lparr>name = ''DL24_BLE'', address = ''27:4B:B0:47:69:84''\<rparr>\<rparr>"
      CurrentLoadMeter 1 2]
  by (simp add: DL24TestLoad_def init_def)

text \<open>
  Claim C9. Two 36-byte frames that agree on the bytes at indices 4 to 16 decode to the
  same reading under either variant (and make a handler with a callback do the same);
  under \<open>UsbPowerMeter\<close> agreement on indices 5, 6 and 8 to 16 is enough, so bytes 4 and 7
  do not matter there either.
\<close>

theorem decode_reads_only_bytes_4_to_16:
  assumes "length f = 36" and "length g = 36"
  shows "((\<forall>i\<in>{4..16}. f ! i = g ! i) \<longrightarrow>
            decode variant f = decode variant g
          \<and> (callback self = Some cb \<longrightarrow>
               handle_data variant self sender f = handle_data variant self sender g))
       \<and> ((\<forall>i\<in>{5, 6} \<union> {8..16}. f ! i = g ! i) \<longrightarrow>
            decode UsbPowerMeter f = decode UsbPowerMeter g)"
proof (intro conjI impI)
  assume h: "\<forall>i\<in>{4..16}. f ! i = g ! i"
  have e: "f ! 4 = g ! 4" "f ! 5 = g ! 5" "f ! 6 = g ! 6" "f ! 7 = g ! 7" "f ! 8 = g ! 8"
    "f ! 9 = g ! 9" "f ! 10 = g ! 10" "f ! 11 = g ! 11" "f ! 12 = g ! 12" "f ! 13 = g ! 13"
    "f ! 14 = g ! 14" "f ! 15 = g ! 15" "f ! 16 = g ! 16"
    using h by simp_all
  then have p: "parse variant f = parse variant g"
    by (cases variant) simp_all
  with assms show d: "decode variant f = decode variant g"
    by (simp add: decode_def)
  assume "callback self = Some cb"
  with d show "handle_data variant self sender f = handle_data variant self sender g"
    by (simp add: handle_data_def)
next
  assume h: "\<forall>i\<in>{5, 6} \<union> {8..16}. f ! i = g ! i"
  have e: "f ! 5 = g ! 5" "f ! 6 = g ! 6" "f ! 8 = g ! 8"
    "f ! 9 = g ! 9" "f ! 10 = g ! 10" "f ! 11 = g ! 11" "f ! 12 = g ! 12" "f ! 13 = g ! 13"
    "f ! 14 = g ! 14" "f ! 15 = g ! 15" "f ! 16 = g ! 16"
    using h by simp_all
  then have "parse UsbPowerMeter f = parse UsbPowerMeter g"
    by simp
  with assms show "decode UsbPowerMeter f = decode UsbPowerMeter g"
    by (simp add: decode_def)
qed

theorem decode_reads_only_bytes_4_to_16_witness:
  "length scenario_A = 36 \<and> length scenario_A' = 36 \<and> scenario_A \<noteq> scenario_A'
   \<and> decode CurrentLoadMeter scenario_A = decode CurrentLoadMeter scenario_A'
   \<and> decode UsbPowerMeter scenario_A = decode UsbPowerMeter scenario_A'"
proof -
  have l: "length scenario_A = 36" "length scenario_A' = 36"
    by (simp_all add: scenario_A_def scenario_A'_def)
  have ne: "scenario_A \<noteq> scenario_A'"
    by (simp add: scenario_A_def scenario_A'_def)
  have "decode CurrentLoadMeter scenario_A = decode CurrentLoadMeter scenario_A'"
    using decode_reads_only_bytes_4_to_16 [OF l, where variant = CurrentLoadMeter
        and self = "DL24TestLoad None (Some ''log_data'')" and cb = "''log_data''"
        and sender = 0] scenario_A_window
    by simp
  moreover have "decode UsbPowerMeter scenario_A = decode UsbPowerMeter scenario_A'"
    using decode_reads_only_bytes_4_to_16 [OF l, where variant = UsbPowerMeter
        and self = "DL24TestLoad None (Some ''log_data'')" and cb = "''log_data''"
        and sender = 0] scenario_A_window
    by simp
  ultimately show ?thesis
    using l ne by simp
qed

subsection \<open>No callback registered\<close>

text \<open>
  Claim C10. When \<^verbatim>\<open>callback\<close> is \<^verbatim>\<open>None\<close> the handler never decodes: for a frame of
  any length, 36 or not, it prints one line, \<^verbatim>\<open>data: \<close> followed by the bytes in
  upper-case hex separated by spaces, and calls no callback. The length test is only
  reached when a callback is set.
\<close>

theorem handle_data_without_callback:
  assumes "callback self = None"
  shows "handle_data variant self sender data =
           [Print (''data: '' @ strip (concat (map format_02X data)) @ newline)]
       \<and> (\<forall>c r. invoke c r \<notin> set (handle_data variant self sender data))"
  using assms by (simp add: handle_data_def invoke_def)

theorem handle_data_without_callback_witness:
  "handle_data CurrentLoadMeter (DL24TestLoad None None) 0 zeros10 =
     [Print (''data: 00 00 00 00 00 00 00 00 00 00'' @ newline) :: string event]"
  using handle_data_without_callback
      [of "DL24TestLoad None None :: string meter" CurrentLoadMeter 0 zeros10]
  by (simp add: DL24TestLoad_def init_def hex_dump_zeros10)

section \<open>Properties of \<^verbatim>\<open>find_device\<close> and \<^verbatim>\<open>connect\<close>\<close>

lemma find_device_not_found_unchanged:
  "find_device self devices = (Inr None, self') \<Longrightarrow> self' = self"
  by (induction devices) (auto split: if_splits option.splits)

text \<open>
  With no address configured, \<^verbatim>\<open>find_device\<close> returns the first device in scan order
  whose name is \<^verbatim>\<open>dev_name\<close> and stores it, or returns \<^verbatim>\<open>None\<close> and leaves the object
  as it was; it never raises.
\<close>

theorem find_device_by_name_only:
  assumes "dev_mac_addr self = None"
  shows "find_device self devices =
           (case List.find (\<lambda>d. name d = dev_name self) devices of
              None \<Rightarrow> (Inr None, self)
            | Some d \<Rightarrow> (Inr (Some d), self\<lparr>device := Some d\<rparr>))"
  using assms by (induction devices) simp_all

theorem find_device_by_name_only_witness:
  "find_device (DL24TestLoad None None :: string meter)
     [\<lparr>name = ''Other'', address = ''AA:BB:CC:DD:EE:FF''\<rparr>,
      \<lparr>name = ''DL24_BLE'', address = ''27:4B:B0:47:69:84''\<rparr>,
      \<lparr>name = ''DL24_BLE'', address = ''00:00:00:00:00:01''\<rparr>] =
   (Inr (Some \<lparr>name = ''DL24_BLE'', address = ''27:4B:B0:47:69:84''\<rparr>),
    (DL24TestLoad None None)
      \<lparr>device := Some \<lparr>name = ''DL24_BLE'', address = ''27:4B:B0:47:69:84''\<rparr>\<rparr>)"
  using find_device_by_name_only [of "DL24TestLoad None None :: string meter"
      "[\<lparr>name = ''Other'', address = ''AA:BB:CC:DD:EE:FF''\<rparr>,
        \<lparr>name = ''DL24_BLE'', address = ''27:4B:B0:47:69:84''\<rparr>,
        \<lparr>name = ''DL24_BLE'', address = ''00:00:00:00:00:01''\<rparr>]"]
  by (simp add: DL24TestLoad_def init_def)

text \<open>
  With an address configured and no device stored yet, which is the state in which
  \<^verbatim>\<open>connect\<close> calls it, \<^verbatim>\<open>find_device\<close> looks at the first scanned device only: an
  empty scan gives \<^verbatim>\<open>None\<close>, a first device with the configured name is returned, and
  any other first device makes the address test raise \<^verbatim>\<open>AttributeError\<close>.
\<close>

theorem find_device_with_address_first_scan:
  assumes "dev_mac_addr self = Some mac" and "device self = None"
  shows "find_device self devices =
           (case devices of
              [] \<Rightarrow> (Inr None, self)
            | d # _ \<Rightarrow>
                if name d = dev_name self then (Inr (Some d), self\<lparr>device := Some d\<rparr>)
                else (Inl AttributeError, self))"
  using assms by (cases devices) simp_all

theorem find_device_with_address_first_scan_witness:
  "find_device (DL24TestLoad (Some ''27:4B:B0:47:69:84'') None :: string meter) [] =
     (Inr None, DL24TestLoad (Some ''27:4B:B0:47:69:84'') None)
   \<and> find_device (DL24TestLoad (Some ''27:4B:B0:47:69:84'') None :: string meter)
       [\<lparr>name = ''Other'', address = ''27:4B:B0:47:69:84''\<rparr>,
        \<lparr>name = ''DL24_BLE'', address = ''27:4B:B0:47:69:84''\<rparr>] =
     (Inl AttributeError, DL24TestLoad (Some ''27:4B:B0:47:69:84'') None)"
  using find_device_with_address_first_scan
      [of "DL24TestLoad (Some ''27:4B:B0:47:69:84'') None :: string meter"
        "''27:4B:B0:47:69:84''" "[]"]
    find_device_with_address_first_scan
      [of "DL24TestLoad (Some ''27:4B:B0:47:69:84'') None :: string meter"
        "''27:4B:B0:47:69:84''"
        "[\<lparr>name = ''Other'', address = ''27:4B:B0:47:69:84''\<rparr>,
          \<lparr>name = ''DL24_BLE'', address = ''27:4B:B0:47:69:84''\<rparr>]"]
  by (simp add: DL24TestLoad_def init_def)

text \<open>
  Claim C4. The claim is that, with an address configured, the locator returns the first
  device matching by name or else the first whose own address matches, without touching
  a missing value. The code does not: on a fresh object configured with the address
  27:4B:B0:47:69:84, a scan holding one device of another name and exactly that address
  raises \<^verbatim>\<open>AttributeError\<close>; and on an object that already stores a device with that
  address, a scanned device of another name and another address is returned, because
  the stored device's address is the one compared.
\<close>

theorem find_device_address_match_raises:
  "fst (find_device (DL24TestLoad (Some ''27:4B:B0:47:69:84'') None :: string meter)
         [\<lparr>name = ''Other'', address = ''27:4B:B0:47:69:84''\<rparr>]) = Inl AttributeError
   \<and> fst (find_device
         ((DL24TestLoad (Some ''27:4B:B0:47:69:84'') None :: string meter)
            \<lparr>device := Some \<lparr>name = ''Old'', address = ''27:4b:b0:47:69:84''\<rparr>\<rparr>)
         [\<lparr>name = ''Other'', address = ''AA:BB:CC:DD:EE:FF''\<rparr>])
       = Inr (Some \<lparr>name = ''Other'', address = ''AA:BB:CC:DD:EE:FF''\<rparr>)"
  by code_simp

text \<open>
  Claim C5. The claim is that a scan with no device matching the name or the address
  gives \<^verbatim>\<open>None\<close> and no exception. On a fresh object configured with the address
  27:4B:B0:47:69:84, a scan holding one device of another name and another address raises
  \<^verbatim>\<open>AttributeError\<close> instead.
\<close>

theorem find_device_no_match_raises:
  "fst (find_device (UD18UsbMeter (Some ''27:4B:B0:47:69:84'') None :: string meter)
         [\<lparr>name = ''Other'', address = ''AA:BB:CC:DD:EE:FF''\<rparr>]) = Inl AttributeError"
  by (simp add: UD18UsbMeter_def init_def)

text \<open>
  Claim C6. Called with \<^verbatim>\<open>keep_trying=False\<close> on an object with no device yet, when
  the scan pass ends with \<^verbatim>\<open>find_device\<close> returning \<^verbatim>\<open>None\<close>, \<^verbatim>\<open>connect\<close> returns
  \<^verbatim>\<open>False\<close> at once: it has run one scan pass, printed \<^verbatim>\<open>device not found\<close>, left the
  object and the later scan results untouched, and has not tried to link.
\<close>

theorem connect_gives_up_after_one_scan:
  assumes "device self = None" and "fst (find_device self devices) = Inr None"
  shows "connect self False (devices # scans) res =
           Some (Inr False, self, [Discover, Print ''device not found''], scans)"
proof -
  obtain self' where f: "find_device self devices = (Inr None, self')"
    using assms(2) by (cases "find_device self devices") simp
  then have "self' = self"
    by (rule find_device_not_found_unchanged)
  with f assms(1) show ?thesis
    by simp
qed

theorem connect_gives_up_after_one_scan_witness:
  "connect (DL24TestLoad None None) False
     [[\<lparr>name = ''Other'', address = ''AA:BB:CC:DD:EE:FF''\<rparr>],
      [\<lparr>name = ''DL24_BLE'', address = ''27:4B:B0:47:69:84''\<rparr>]] True =
   Some (Inr False, DL24TestLoad None None :: string meter,
         [Discover, Print ''device not found''],
         [[\<lparr>name = ''DL24_BLE'', address = ''27:4B:B0:47:69:84''\<rparr>]])"
  using connect_gives_up_after_one_scan [of "DL24TestLoad None None :: string meter"
      "[\<lparr>name = ''Other'', address = ''AA:BB:CC:DD:EE:FF''\<rparr>]"
      "[[\<lparr>name = ''DL24_BLE'', address = ''27:4B:B0:47:69:84''\<rparr>]]" True]
  by (simp add: DL24TestLoad_def init_def)

end
